theory Spec2Isabelle
  imports Main
begin

section \<open>The navbars component of mobile-angular-ui\<close>

text \<open>
  The module \<^verbatim>\<open>mobile-angular-ui.components.navbars\<close> (file
  \<^verbatim>\<open>src/js/components/navbars.js\<close>) registers three families of directives:
  \<^item> \<^verbatim>\<open>navController\<close>, whose controller object offers \<^verbatim>\<open>registerController\<close>;
  \<^item> \<^verbatim>\<open>navbarAbsoluteTop\<close> and \<^verbatim>\<open>navbarAbsoluteBottom\<close>, whose link function
    marks the root element, assigns the module variable \<^verbatim>\<open>global\<close> once and
    registers a side controller with four methods on it;
  \<^item> twelve toggle directives \<^verbatim>\<open>[hide|show|slidein|slideout][Top|Bottom|Both]Nav\<close>,
    whose link function calls one method of the registered side controllers.

  The embedding passes the state explicitly: the class attribute of every DOM element,
  the heap of \<^verbatim>\<open>navController\<close> objects, the module variable \<^verbatim>\<open>global\<close> and the
  \<^verbatim>\<open>$destroy\<close> listeners installed on scopes.
\<close>

subsection \<open>DOM elements and their classes\<close>

type_synonym node = nat
type_synonym scope = nat
type_synonym ctrl_ref = nat

text \<open>
  The class attribute of an element is a set of class names; \<^verbatim>\<open>addClass\<close> and
  \<^verbatim>\<open>removeClass\<close> are the operations of \<^verbatim>\<open>angular.element\<close>, called here with
  one class name at a time.
\<close>

type_synonym dom = "node \<Rightarrow> string set"

definition addClass :: "node \<Rightarrow> string \<Rightarrow> dom \<Rightarrow> dom" where
  "addClass n c d = d(n := insert c (d n))"

definition removeClass :: "node \<Rightarrow> string \<Rightarrow> dom \<Rightarrow> dom" where
  "removeClass n c d = d(n := d n - {c})"

subsection \<open>The names the module iterates over\<close>

text \<open>\<^verbatim>\<open>['top', 'bottom']\<close>, \<^verbatim>\<open>['Top', 'Bottom', 'Both']\<close> and
  \<^verbatim>\<open>['hide', 'show', 'slidein', 'slideout']\<close>.\<close>

datatype side = SideTop | SideBottom

datatype nav = Top | Bottom | Both

datatype method_name = Hide | Show | Slidein | Slideout

fun side_str :: "side \<Rightarrow> string" where
  "side_str SideTop = ''top''"
| "side_str SideBottom = ''bottom''"

fun nav_str :: "nav \<Rightarrow> string" where
  "nav_str Top = ''Top''"
| "nav_str Bottom = ''Bottom''"
| "nav_str Both = ''Both''"

fun method_str :: "method_name \<Rightarrow> string" where
  "method_str Hide = ''hide''"
| "method_str Show = ''show''"
| "method_str Slidein = ''slidein''"
| "method_str Slideout = ''slideout''"

text \<open>\<^verbatim>\<open>String.prototype.toLowerCase\<close> on ASCII letters.\<close>

definition lower_char :: "char \<Rightarrow> char" where
  "lower_char c =
     (let n = (of_char c :: nat) in if 65 \<le> n \<and> n \<le> 90 then char_of (n + 32) else c)"

definition toLowerCase :: "string \<Rightarrow> string" where
  "toLowerCase s = map lower_char s"

definition upper_char :: "char \<Rightarrow> char" where
  "upper_char c =
     (let n = (of_char c :: nat) in if 97 \<le> n \<and> n \<le> 122 then char_of (n - 32) else c)"

definition toUpperCase :: "string \<Rightarrow> string" where
  "toUpperCase s = map upper_char s"

text \<open>The name under which a navbar directive is registered:
  \<^verbatim>\<open>'navbarAbsolute' + side.charAt(0).toUpperCase() + side.slice(1)\<close>.\<close>

definition navbar_name :: "side \<Rightarrow> string" where
  "navbar_name sd =
     ''navbarAbsolute'' @ toUpperCase (take 1 (side_str sd)) @ drop 1 (side_str sd)"

text \<open>The name under which a toggle directive is registered: \<^verbatim>\<open>method + nav + "Nav"\<close>.\<close>

definition toggle_name :: "nav \<Rightarrow> method_name \<Rightarrow> string" where
  "toggle_name nv m = method_str m @ nav_str nv @ ''Nav''"

text \<open>The class put on the root element: \<^verbatim>\<open>'has-navbar-' + side\<close>.\<close>

definition has_navbar :: "side \<Rightarrow> string" where
  "has_navbar sd = ''has-navbar-'' @ side_str sd"

subsection \<open>The side controller\<close>

text \<open>
  The object built by \<^verbatim>\<open>new (function() { ... })()\<close> in the link function of a navbar
  directive is a closure over \<^verbatim>\<open>$rootElement\<close>, \<^verbatim>\<open>elem\<close> and \<^verbatim>\<open>side\<close>; it always has
  the four methods below.
\<close>

record side_ctrl =
  env_rootElement :: node
  env_elem :: node
  env_side :: side

definition hide :: "side_ctrl \<Rightarrow> dom \<Rightarrow> dom" where
  "hide c d =
     addClass (env_elem c) ''ng-hide''
       (removeClass (env_rootElement c) (has_navbar (env_side c)) d)"

definition show_nav :: "side_ctrl \<Rightarrow> dom \<Rightarrow> dom" where
  "show_nav c d =
     addClass (env_rootElement c) (has_navbar (env_side c))
       (removeClass (env_elem c) ''ng-hide'' d)"

definition slideout :: "side_ctrl \<Rightarrow> dom \<Rightarrow> dom" where
  "slideout c d =
     addClass (env_elem c) ''ng-hide''
       (removeClass (env_rootElement c) (has_navbar (env_side c)) d)"

definition slidein :: "side_ctrl \<Rightarrow> dom \<Rightarrow> dom" where
  "slidein c d =
     addClass (env_rootElement c) (has_navbar (env_side c))
       (removeClass (env_elem c) ''ng-hide'' d)"

text \<open>The call \<^verbatim>\<open>ctrl[method]()\<close> on a side controller.\<close>

fun invoke :: "method_name \<Rightarrow> side_ctrl \<Rightarrow> dom \<Rightarrow> dom" where
  "invoke Hide c d = hide c d"
| "invoke Show c d = show_nav c d"
| "invoke Slidein c d = slidein c d"
| "invoke Slideout c d = slideout c d"

subsection \<open>The shared state\<close>

text \<open>
  A \<^verbatim>\<open>navController\<close> object holds the side controllers stored by
  \<^verbatim>\<open>registerController\<close> as properties; \<^verbatim>\<open>this[name] = ctrl\<close> overwrites.
\<close>

type_synonym nav_ctrl = "string \<rightharpoonup> side_ctrl"

definition registerController :: "string \<Rightarrow> side_ctrl \<Rightarrow> nav_ctrl \<Rightarrow> nav_ctrl" where
  "registerController name ctrl this = this(name \<mapsto> ctrl)"

record state =
  classes :: dom
  ctrls :: "ctrl_ref \<Rightarrow> nav_ctrl"
  global :: "ctrl_ref option"
  destroy_listeners :: "(scope \<times> node \<times> side) list"

text \<open>The page before any directive has linked: \<^verbatim>\<open>var global;\<close> is undefined and no
  controller object has a side controller.\<close>

definition init :: "dom \<Rightarrow> state" where
  "init d = \<lparr>classes = d, ctrls = (\<lambda>_. Map.empty), global = None, destroy_listeners = []\<rparr>"

subsection \<open>Link function of \<^verbatim>\<open>navbarAbsoluteTop\<close> and \<^verbatim>\<open>navbarAbsoluteBottom\<close>\<close>

definition navbar_link :: "side \<Rightarrow> scope \<Rightarrow> node \<Rightarrow> node \<Rightarrow> ctrl_ref \<Rightarrow> state \<Rightarrow> state" where
  "navbar_link sd sc rootElement elem ctrl s =
     (let s1 = s\<lparr>classes := addClass rootElement (has_navbar sd) (classes s)\<rparr>;
          s2 = s1\<lparr>destroy_listeners := destroy_listeners s1 @ [(sc, rootElement, sd)]\<rparr>;
          g = (case global s2 of None \<Rightarrow> ctrl | Some r \<Rightarrow> r);
          s3 = s2\<lparr>global := Some g\<rparr>;
          c = \<lparr>env_rootElement = rootElement, env_elem = elem, env_side = sd\<rparr>
      in s3\<lparr>ctrls := (ctrls s3)(g := registerController (side_str sd) c (ctrls s3 g))\<rparr>)"

text \<open>The listener installed by \<^verbatim>\<open>scope.$on('$destroy', ...)\<close>, run when the scope is
  destroyed.\<close>

fun run_listeners :: "scope \<Rightarrow> (scope \<times> node \<times> side) list \<Rightarrow> dom \<Rightarrow> dom" where
  "run_listeners sc [] d = d"
| "run_listeners sc ((sc', r, sd) # ls) d =
     run_listeners sc ls (if sc' = sc then removeClass r (has_navbar sd) d else d)"

definition scope_destroy :: "scope \<Rightarrow> state \<Rightarrow> state" where
  "scope_destroy sc s = s\<lparr>classes := run_listeners sc (destroy_listeners s) (classes s)\<rparr>"

subsection \<open>Link function of the toggle directives\<close>

datatype error = TypeError

text \<open>
  \<^verbatim>\<open>global.bottom[method]()\<close>: reading a property of \<^verbatim>\<open>undefined\<close> throws a
  \<^verbatim>\<open>TypeError\<close>; a side controller that is there has every method. A throw leaves the
  state as it is at that moment.
\<close>

definition call_method :: "method_name \<Rightarrow> side_ctrl option \<Rightarrow> state \<Rightarrow> (error \<times> state) + state" where
  "call_method m c s =
     (case c of
        None \<Rightarrow> Inl (TypeError, s)
      | Some c' \<Rightarrow> Inr (s\<lparr>classes := invoke m c' (classes s)\<rparr>))"

definition toggle_link :: "nav \<Rightarrow> method_name \<Rightarrow> state \<Rightarrow> (error \<times> state) + state" where
  "toggle_link nv m s =
     (case global s of
        None \<Rightarrow> Inr s
      | Some g \<Rightarrow>
          if nv = Both then
            (case call_method m (ctrls s g ''bottom'') s of
               Inl e \<Rightarrow> Inl e
             | Inr s1 \<Rightarrow> call_method m (ctrls s1 g ''top'') s1)
          else call_method m (ctrls s g (toLowerCase (nav_str nv))) s)"

subsection \<open>Linking in sequence\<close>

text \<open>
  The framework calls link functions and scope listeners one at a time. An exception
  thrown by a link function is handed to the framework's exception handler, and what the
  link function had done before it stays done.
\<close>

datatype event =
    NavbarLink side scope node node ctrl_ref
  | ToggleLink nav method_name
  | ScopeDestroy scope

fun outcome :: "(error \<times> state) + state \<Rightarrow> state" where
  "outcome (Inl (e, s)) = s"
| "outcome (Inr s) = s"

fun step :: "event \<Rightarrow> state \<Rightarrow> state" where
  "step (NavbarLink sd sc r e ctrl) s = navbar_link sd sc r e ctrl s"
| "step (ToggleLink nv m) s = outcome (toggle_link nv m s)"
| "step (ScopeDestroy sc) s = scope_destroy sc s"

fun run :: "event list \<Rightarrow> state \<Rightarrow> state" where
  "run [] s = s"
| "run (ev # evs) s = run evs (step ev s)"

fun first_navbar_ctrl :: "event list \<Rightarrow> ctrl_ref option" where
  "first_navbar_ctrl [] = None"
| "first_navbar_ctrl (NavbarLink sd sc r e ctrl # evs) = Some ctrl"
| "first_navbar_ctrl (ToggleLink nv m # evs) = first_navbar_ctrl evs"
| "first_navbar_ctrl (ScopeDestroy sc # evs) = first_navbar_ctrl evs"

subsection \<open>Observations\<close>

text \<open>The property \<^verbatim>\<open>global[name]\<close>, undefined when \<^verbatim>\<open>global\<close> is.\<close>

definition global_prop :: "string \<Rightarrow> state \<Rightarrow> side_ctrl option" where
  "global_prop name s = (case global s of None \<Rightarrow> None | Some g \<Rightarrow> ctrls s g name)"

text \<open>
  A navbar is visible when its element lacks \<^verbatim>\<open>ng-hide\<close> and the root element has
  \<^verbatim>\<open>has-navbar-<side>\<close>, hidden when it is the other way round, and in neither
  condition otherwise.
\<close>

datatype condition = Visible | Hidden | Neither

definition nav_condition :: "side_ctrl \<Rightarrow> dom \<Rightarrow> condition" where
  "nav_condition c d =
     (let h = ''ng-hide'' \<in> d (env_elem c);
          r = has_navbar (env_side c) \<in> d (env_rootElement c)
      in if \<not> h \<and> r then Visible else if h \<and> \<not> r then Hidden else Neither)"

definition nav_inv :: "side_ctrl \<Rightarrow> dom \<Rightarrow> bool" where
  "nav_inv c d =
     ((''ng-hide'' \<in> d (env_elem c)) = (has_navbar (env_side c) \<notin> d (env_rootElement c)))"

subsection \<open>Example pages\<close>

text \<open>Root element 0, a top navbar on element 1 with controller 10, a bottom navbar on
  element 2 with controller 11.\<close>

definition top_ctrl :: side_ctrl where
  "top_ctrl = \<lparr>env_rootElement = 0, env_elem = 1, env_side = SideTop\<rparr>"

definition bottom_ctrl :: side_ctrl where
  "bottom_ctrl = \<lparr>env_rootElement = 0, env_elem = 2, env_side = SideBottom\<rparr>"

definition page_empty :: state where
  "page_empty = init (\<lambda>_. {})"

definition page_top_only :: state where
  "page_top_only = navbar_link SideTop 1 0 1 10 page_empty"

definition page_both :: state where
  "page_both = navbar_link SideBottom 2 0 2 11 page_top_only"

definition page_bottom_only :: state where
  "page_bottom_only = navbar_link SideBottom 2 0 2 11 page_empty"

section \<open>Basic facts\<close>

lemma ng_hide_not_has_navbar [simp]:
  "has_navbar sd \<noteq> ''ng-hide''" "''ng-hide'' \<noteq> has_navbar sd"
  by (cases sd; simp add: has_navbar_def)+

lemma has_navbar_inj [simp]: "has_navbar a = has_navbar b \<longleftrightarrow> a = b"
  by (cases a; cases b) (simp_all add: has_navbar_def)

lemma toLowerCase_nav [simp]:
  "toLowerCase ''Top'' = ''top''"
  "toLowerCase ''Bottom'' = ''bottom''"
  by code_simp+

lemma navbar_name_simps:
  "navbar_name SideTop = ''navbarAbsoluteTop''"
  "navbar_name SideBottom = ''navbarAbsoluteBottom''"
  by code_simp+

lemma toggle_name_inj: "toggle_name nv m = toggle_name nv' m' \<longleftrightarrow> nv = nv' \<and> m = m'"
  by (cases nv; cases m; cases nv'; cases m') (simp_all add: toggle_name_def)

lemma in_addClass [simp]: "x \<in> addClass n c d k \<longleftrightarrow> (k = n \<and> x = c) \<or> x \<in> d k"
  by (auto simp: addClass_def)

lemma in_removeClass [simp]: "x \<in> removeClass n c d k \<longleftrightarrow> x \<in> d k \<and> \<not> (k = n \<and> x = c)"
  by (auto simp: removeClass_def)

lemma dom_eqI: "(\<And>k x. x \<in> d k \<longleftrightarrow> x \<in> d' k) \<Longrightarrow> d = (d' :: dom)"
  by (auto simp: fun_eq_iff)

lemma page_top_only_simps:
  "global page_top_only = Some 10"
  "ctrls page_top_only 10 ''top'' = Some top_ctrl"
  "ctrls page_top_only 10 ''bottom'' = None"
  by (simp_all add: page_top_only_def page_empty_def init_def navbar_link_def Let_def
      registerController_def top_ctrl_def)

lemma page_both_simps:
  "global page_both = Some 10"
  "ctrls page_both 10 ''top'' = Some top_ctrl"
  "ctrls page_both 10 ''bottom'' = Some bottom_ctrl"
  by (simp_all add: page_both_def page_top_only_def page_empty_def init_def navbar_link_def
      Let_def registerController_def top_ctrl_def bottom_ctrl_def)

lemma page_bottom_only_simps:
  "global page_bottom_only = Some 11"
  "ctrls page_bottom_only 11 ''top'' = None"
  "ctrls page_bottom_only 11 ''bottom'' = Some bottom_ctrl"
  by (simp_all add: page_bottom_only_def page_empty_def init_def navbar_link_def Let_def
      registerController_def bottom_ctrl_def)

lemma classes_page_top_only:
  "classes page_top_only = (\<lambda>k. if k = 0 then {has_navbar SideTop} else {})"
  by (rule dom_eqI)
    (auto simp: page_top_only_def page_empty_def init_def navbar_link_def Let_def)

lemma classes_page_both:
  "classes page_both = (\<lambda>k. if k = 0 then {has_navbar SideBottom, has_navbar SideTop} else {})"
  by (rule dom_eqI)
    (auto simp: page_both_def page_top_only_def page_empty_def init_def navbar_link_def Let_def)

section \<open>The side controller's methods\<close>

lemma nav_inv_invoke: "nav_inv c (invoke m c d)"
  by (cases m) (simp_all add: nav_inv_def hide_def show_nav_def slidein_def slideout_def)

lemma nav_inv_frame:
  "env_elem c' \<noteq> env_elem c \<Longrightarrow> env_side c' \<noteq> env_side c \<Longrightarrow>
   nav_inv c (invoke m c' d) = nav_inv c d"
  by (cases m) (auto simp add: nav_inv_def hide_def show_nav_def slidein_def slideout_def)

lemma nav_condition_Neither: "nav_condition c d = Neither \<longleftrightarrow> \<not> nav_inv c d"
  by (auto simp: nav_condition_def nav_inv_def Let_def)

lemma nav_condition_cases: "nav_condition c d \<in> {Visible, Hidden} \<longleftrightarrow> nav_inv c d"
  using nav_condition_Neither[of c d] by (cases "nav_condition c d") simp_all

lemma nav_condition_invoke:
  "nav_condition c (invoke Show c d) = Visible"
  "nav_condition c (invoke Slidein c d) = Visible"
  "nav_condition c (invoke Hide c d) = Hidden"
  "nav_condition c (invoke Slideout c d) = Hidden"
  by (simp_all add: nav_condition_def hide_def show_nav_def slidein_def slideout_def)

text \<open>
  C1. For either side, the controller that the navbar directive registers under that
  side's name has a \<^verbatim>\<open>show\<close> that leaves the navbar element without \<^verbatim>\<open>ng-hide\<close> and
  the root element with \<^verbatim>\<open>has-navbar-<side>\<close>, and a \<^verbatim>\<open>hide\<close> that leaves the navbar
  element with \<^verbatim>\<open>ng-hide\<close> and the root element without \<^verbatim>\<open>has-navbar-<side>\<close>,
  whatever the classes were before.
\<close>

theorem navbar_show_hide:
  "(let c = \<lparr>env_rootElement = r, env_elem = e, env_side = sd\<rparr> in
      global_prop (side_str sd) (navbar_link sd sc r e ctrl s) = Some c \<and>
      ''ng-hide'' \<notin> show_nav c d e \<and> has_navbar sd \<in> show_nav c d r \<and>
      ''ng-hide'' \<in> hide c d e \<and> has_navbar sd \<notin> hide c d r)"
  by (simp add: Let_def global_prop_def navbar_link_def registerController_def
      show_nav_def hide_def split: option.split)

text \<open>
  C2. After any of the four methods of a navbar's controller, the navbar element has
  \<^verbatim>\<open>ng-hide\<close> if and only if the root element lacks \<^verbatim>\<open>has-navbar-<side>\<close>. A method of
  the controller of the other side, on another element, does not change whether this
  holds.
\<close>

theorem operations_keep_nav_inv:
  "nav_inv c (invoke m c d) \<and>
   (env_elem c' \<noteq> env_elem c \<and> env_side c' \<noteq> env_side c \<longrightarrow>
      nav_inv c (invoke m c' d) = nav_inv c d)"
  using nav_inv_invoke nav_inv_frame by blast

theorem operations_keep_nav_inv_witness:
  "nav_inv top_ctrl (invoke Hide top_ctrl (classes page_both)) \<and>
   env_elem bottom_ctrl \<noteq> env_elem top_ctrl \<and>
   env_side bottom_ctrl \<noteq> env_side top_ctrl \<and>
   nav_inv top_ctrl (classes page_both) \<and>
   nav_inv top_ctrl (invoke Slideout bottom_ctrl (classes page_both))"
proof -
  have e: "env_elem bottom_ctrl \<noteq> env_elem top_ctrl" "env_side bottom_ctrl \<noteq> env_side top_ctrl"
    by (simp_all add: top_ctrl_def bottom_ctrl_def)
  have i: "nav_inv top_ctrl (classes page_both)"
    by (simp add: nav_inv_def classes_page_both top_ctrl_def)
  from operations_keep_nav_inv[of top_ctrl Hide "classes page_both" bottom_ctrl]
  have "nav_inv top_ctrl (invoke Hide top_ctrl (classes page_both))"
    by simp
  moreover from operations_keep_nav_inv[of top_ctrl Slideout "classes page_both" bottom_ctrl] e i
  have "nav_inv top_ctrl (invoke Slideout bottom_ctrl (classes page_both))"
    by simp
  ultimately show ?thesis
    using e i by simp
qed

text \<open>
  C4. \<^verbatim>\<open>slidein\<close> is the same function on the classes as \<^verbatim>\<open>show\<close>, and
  \<^verbatim>\<open>slideout\<close> the same as \<^verbatim>\<open>hide\<close>; so is every toggle directive of a slide method
  and the one of the plain method.
\<close>

theorem slide_is_plain:
  "slidein c d = show_nav c d \<and> slideout c d = hide c d \<and>
   invoke Slidein c d = invoke Show c d \<and> invoke Slideout c d = invoke Hide c d \<and>
   toggle_link nv Slidein s = toggle_link nv Show s \<and>
   toggle_link nv Slideout s = toggle_link nv Hide s"
proof -
  have i: "invoke Slidein c' d' = invoke Show c' d'" "invoke Slideout c' d' = invoke Hide c' d'"
    for c' d'
    by (simp_all add: slidein_def show_nav_def slideout_def hide_def)
  have cm: "call_method Slidein x t = call_method Show x t"
    "call_method Slideout x t = call_method Hide x t" for x t
    unfolding call_method_def i by (rule refl)+
  have "toggle_link nv Slidein s = toggle_link nv Show s"
    "toggle_link nv Slideout s = toggle_link nv Hide s"
    unfolding toggle_link_def cm by (rule refl)+
  with i show ?thesis
    by simp
qed

text \<open>
  C9. Each of the four methods is idempotent: calling it twice in a row leaves the classes
  of every element as one call does.
\<close>

theorem invoke_idem: "invoke m c (invoke m c d) = invoke m c d"
  by (cases m; rule dom_eqI) (auto simp add: hide_def show_nav_def slidein_def slideout_def)

section \<open>The toggle directives\<close>

lemma toggle_link_registered:
  assumes "global s = Some g" "ctrls s g ''bottom'' = Some b" "ctrls s g ''top'' = Some t"
  shows "toggle_link Both m s = Inr (s\<lparr>classes := invoke m t (invoke m b (classes s))\<rparr>)"
    and "toggle_link Top m s = Inr (s\<lparr>classes := invoke m t (classes s)\<rparr>)"
    and "toggle_link Bottom m s = Inr (s\<lparr>classes := invoke m b (classes s)\<rparr>)"
  using assms by (simp_all add: toggle_link_def call_method_def)

lemma toggle_link_single:
  "global s = Some g \<Longrightarrow> ctrls s g ''top'' = Some t \<Longrightarrow>
     toggle_link Top m s = Inr (s\<lparr>classes := invoke m t (classes s)\<rparr>)"
  "global s = Some g \<Longrightarrow> ctrls s g ''bottom'' = Some b \<Longrightarrow>
     toggle_link Bottom m s = Inr (s\<lparr>classes := invoke m b (classes s)\<rparr>)"
  by (simp_all add: toggle_link_def call_method_def)

text \<open>The order of the two calls of a Both directive shows when one of them throws: a
  missing bottom controller throws before the top one is touched, a missing top
  controller throws after the bottom navbar has been toggled.\<close>

lemma toggle_both_order:
  "global s = Some g \<Longrightarrow> ctrls s g ''bottom'' = None \<Longrightarrow>
     toggle_link Both m s = Inl (TypeError, s)"
  "global s = Some g \<Longrightarrow> ctrls s g ''bottom'' = Some b \<Longrightarrow> ctrls s g ''top'' = None \<Longrightarrow>
     toggle_link Both m s = Inl (TypeError, s\<lparr>classes := invoke m b (classes s)\<rparr>)"
  by (simp_all add: toggle_link_def call_method_def)

lemma toggle_link_missing:
  "global s = Some g \<Longrightarrow> ctrls s g ''top'' = None \<Longrightarrow>
     toggle_link Top m s = Inl (TypeError, s)"
  "global s = Some g \<Longrightarrow> ctrls s g ''bottom'' = None \<Longrightarrow>
     toggle_link Bottom m s = Inl (TypeError, s)"
  by (simp_all add: toggle_link_def call_method_def)

text \<open>
  C3. With \<^verbatim>\<open>global\<close> defined, the method dispatch of a toggle directive should never
  fail. On a page where only the top navbar has linked, \<^verbatim>\<open>global\<close> is defined and
  \<^verbatim>\<open>global.bottom\<close> is not: the link functions of \<^verbatim>\<open>hideBothNav\<close> and
  \<^verbatim>\<open>showBottomNav\<close> throw a \<^verbatim>\<open>TypeError\<close>.
\<close>

theorem toggle_throws_one_navbar:
  "global page_top_only = Some 10 \<and>
   toggle_link Both Hide page_top_only = Inl (TypeError, page_top_only) \<and>
   toggle_link Bottom Show page_top_only = Inl (TypeError, page_top_only)"
  by (simp add: toggle_both_order(1) toggle_link_missing(2) page_top_only_simps)

text \<open>The link function of a toggle directive in terms of the object \<^verbatim>\<open>global\<close>
  refers to: which side controllers it reads, in which order, and what it does when one
  is missing.\<close>

lemma toggle_link_global:
  assumes "global s = Some g"
  shows "toggle_link Top m s =
           (case ctrls s g ''top'' of
              None \<Rightarrow> Inl (TypeError, s)
            | Some t \<Rightarrow> Inr (s\<lparr>classes := invoke m t (classes s)\<rparr>))"
    and "toggle_link Bottom m s =
           (case ctrls s g ''bottom'' of
              None \<Rightarrow> Inl (TypeError, s)
            | Some b \<Rightarrow> Inr (s\<lparr>classes := invoke m b (classes s)\<rparr>))"
    and "toggle_link Both m s =
           (case ctrls s g ''bottom'' of
              None \<Rightarrow> Inl (TypeError, s)
            | Some b \<Rightarrow>
                (case ctrls s g ''top'' of
                   None \<Rightarrow> Inl (TypeError, s\<lparr>classes := invoke m b (classes s)\<rparr>)
                 | Some t \<Rightarrow> Inr (s\<lparr>classes := invoke m t (invoke m b (classes s))\<rparr>)))"
  using assms by (simp_all add: toggle_link_def call_method_def split: option.split)

text \<open>
  C7. With \<^verbatim>\<open>global\<close> defined, a Both directive should call the method on the bottom
  controller and then on the top controller, and a Top or Bottom directive on its one
  controller. On the page where only the top navbar has linked, \<^verbatim>\<open>global\<close> is
  defined and \<^verbatim>\<open>hideBothNav\<close> throws at \<^verbatim>\<open>global.bottom\<close> before
  \<^verbatim>\<open>global.top.hide()\<close> is reached: the registered top navbar stays visible, though
  \<^verbatim>\<open>hideTopNav\<close> hides it. On the page where only the bottom navbar has linked,
  \<^verbatim>\<open>hideBothNav\<close> hides the bottom navbar and then throws, and \<^verbatim>\<open>hideTopNav\<close>
  throws without calling anything.
\<close>

theorem toggle_both_one_navbar:
  "global page_top_only = Some 10 \<and>
   ctrls page_top_only 10 ''top'' = Some top_ctrl \<and>
   toggle_link Both Hide page_top_only = Inl (TypeError, page_top_only) \<and>
   nav_condition top_ctrl (classes (outcome (toggle_link Both Hide page_top_only))) = Visible \<and>
   nav_condition top_ctrl (classes (outcome (toggle_link Top Hide page_top_only))) = Hidden \<and>
   global page_bottom_only = Some 11 \<and>
   ctrls page_bottom_only 11 ''bottom'' = Some bottom_ctrl \<and>
   toggle_link Both Hide page_bottom_only =
     Inl (TypeError, page_bottom_only\<lparr>classes := hide bottom_ctrl (classes page_bottom_only)\<rparr>) \<and>
   toggle_link Top Hide page_bottom_only = Inl (TypeError, page_bottom_only)"
proof -
  note t = page_top_only_simps
  note b = page_bottom_only_simps
  have "toggle_link Both Hide page_top_only = Inl (TypeError, page_top_only)"
    by (simp add: toggle_link_global(3)[OF t(1)] t)
  moreover have "nav_condition top_ctrl (classes page_top_only) = Visible"
    by (simp add: nav_condition_def classes_page_top_only top_ctrl_def)
  moreover have "toggle_link Top Hide page_top_only =
      Inr (page_top_only\<lparr>classes := invoke Hide top_ctrl (classes page_top_only)\<rparr>)"
    by (simp add: toggle_link_global(1)[OF t(1)] t)
  moreover have "toggle_link Both Hide page_bottom_only =
      Inl (TypeError, page_bottom_only\<lparr>classes := hide bottom_ctrl (classes page_bottom_only)\<rparr>)"
    by (simp add: toggle_link_global(3)[OF b(1)] b)
  moreover have "toggle_link Top Hide page_bottom_only = Inl (TypeError, page_bottom_only)"
    by (simp add: toggle_link_global(1)[OF b(1)] b)
  moreover have "nav_condition top_ctrl (hide top_ctrl (classes page_top_only)) = Hidden"
    using nav_condition_invoke(3)[of top_ctrl "classes page_top_only"] by simp
  ultimately show ?thesis
    using t b by simp
qed

text \<open>
  C8. While \<^verbatim>\<open>global\<close> is undefined, the link function of every toggle directive
  returns without changing anything: the classes of every element, the controllers,
  \<^verbatim>\<open>global\<close> and the listeners are as before.
\<close>

theorem toggle_noop: "global s = None \<Longrightarrow> toggle_link nv m s = Inr s"
  by (simp add: toggle_link_def)

theorem toggle_noop_witness:
  "global page_empty = None \<and> toggle_link Both Slideout page_empty = Inr page_empty"
proof -
  have g: "global page_empty = None"
    by (simp add: page_empty_def init_def)
  from toggle_noop[OF g, of Both Slideout] g show ?thesis
    by simp
qed

section \<open>The module variable\<close>

lemma global_navbar_link:
  "global (navbar_link sd sc r e ctrl s) =
     (case global s of None \<Rightarrow> Some ctrl | Some g \<Rightarrow> Some g)"
  by (simp add: navbar_link_def Let_def split: option.split)

lemma global_toggle_link: "global (outcome (toggle_link nv m s)) = global s"
  by (auto simp: toggle_link_def call_method_def split: option.split)

lemma global_scope_destroy: "global (scope_destroy sc s) = global s"
  by (simp add: scope_destroy_def)

lemma global_run:
  "global (run evs s) = (case global s of None \<Rightarrow> first_navbar_ctrl evs | Some g \<Rightarrow> Some g)"
proof (induction evs arbitrary: s)
  case Nil
  then show ?case by (simp split: option.split)
next
  case (Cons ev evs)
  show ?case
    by (cases ev)
      (simp_all add: Cons.IH global_navbar_link global_toggle_link global_scope_destroy
        split: option.split)
qed

lemma toggle_other_ctrl:
  assumes "global s \<noteq> Some g'"
  shows "classes (outcome (toggle_link nv m (s\<lparr>ctrls := (ctrls s)(g' := x)\<rparr>))) =
         classes (outcome (toggle_link nv m s))"
  using assms by (auto simp: toggle_link_def call_method_def split: option.split)

lemma navbar_link_other_ctrl:
  "global (navbar_link sd sc r e ctrl s) \<noteq> Some g' \<Longrightarrow>
   ctrls (navbar_link sd sc r e ctrl s) g' = ctrls s g'"
  by (auto simp: navbar_link_def Let_def split: option.splits)

lemma navbar_link_registers:
  "global_prop (side_str sd) (navbar_link sd sc r e ctrl s) =
     Some \<lparr>env_rootElement = r, env_elem = e, env_side = sd\<rparr>"
  by (simp add: global_prop_def navbar_link_def Let_def registerController_def
      split: option.split)

text \<open>
  C6. There is one shared controller, and every toggle directive works through it.
  Through any sequence of navbar links, toggle links and scope destructions,
  \<^verbatim>\<open>global\<close> is the controller of the first navbar directive that linked and is never
  assigned again. With \<^verbatim>\<open>global\<close> defined, the link function of every toggle directive
  reads the side controllers stored on the object \<^verbatim>\<open>global\<close> refers to and calls the
  method on them (throwing where one is missing); it does not assign \<^verbatim>\<open>global\<close> and
  reads no other controller object. Every navbar directive registers its side controller
  on that object and on no other.
\<close>

theorem global_assigned_once:
  "global (run evs s) = (case global s of None \<Rightarrow> first_navbar_ctrl evs | Some r \<Rightarrow> Some r) \<and>
   global (outcome (toggle_link nv m s)) = global s \<and>
   (global s = Some g \<longrightarrow>
      toggle_link Top m s =
        (case ctrls s g ''top'' of
           None \<Rightarrow> Inl (TypeError, s)
         | Some t \<Rightarrow> Inr (s\<lparr>classes := invoke m t (classes s)\<rparr>)) \<and>
      toggle_link Bottom m s =
        (case ctrls s g ''bottom'' of
           None \<Rightarrow> Inl (TypeError, s)
         | Some b \<Rightarrow> Inr (s\<lparr>classes := invoke m b (classes s)\<rparr>)) \<and>
      toggle_link Both m s =
        (case ctrls s g ''bottom'' of
           None \<Rightarrow> Inl (TypeError, s)
         | Some b \<Rightarrow>
             (case ctrls s g ''top'' of
                None \<Rightarrow> Inl (TypeError, s\<lparr>classes := invoke m b (classes s)\<rparr>)
              | Some t \<Rightarrow> Inr (s\<lparr>classes := invoke m t (invoke m b (classes s))\<rparr>)))) \<and>
   (global s \<noteq> Some g' \<longrightarrow>
      classes (outcome (toggle_link nv m (s\<lparr>ctrls := (ctrls s)(g' := x)\<rparr>))) =
      classes (outcome (toggle_link nv m s))) \<and>
   global_prop (side_str sd) (navbar_link sd sc r e ctrl s) =
     Some \<lparr>env_rootElement = r, env_elem = e, env_side = sd\<rparr> \<and>
   (global (navbar_link sd sc r e ctrl s) \<noteq> Some g' \<longrightarrow>
      ctrls (navbar_link sd sc r e ctrl s) g' = ctrls s g')"
proof -
  have "global s = Some g \<longrightarrow>
      toggle_link Top m s =
        (case ctrls s g ''top'' of
           None \<Rightarrow> Inl (TypeError, s)
         | Some t \<Rightarrow> Inr (s\<lparr>classes := invoke m t (classes s)\<rparr>)) \<and>
      toggle_link Bottom m s =
        (case ctrls s g ''bottom'' of
           None \<Rightarrow> Inl (TypeError, s)
         | Some b \<Rightarrow> Inr (s\<lparr>classes := invoke m b (classes s)\<rparr>)) \<and>
      toggle_link Both m s =
        (case ctrls s g ''bottom'' of
           None \<Rightarrow> Inl (TypeError, s)
         | Some b \<Rightarrow>
             (case ctrls s g ''top'' of
                None \<Rightarrow> Inl (TypeError, s\<lparr>classes := invoke m b (classes s)\<rparr>)
              | Some t \<Rightarrow> Inr (s\<lparr>classes := invoke m t (invoke m b (classes s))\<rparr>)))"
    using toggle_link_global[of s g m] by blast
  moreover note global_run[of evs s] global_toggle_link[of nv m s]
    navbar_link_registers[of sd sc r e ctrl s]
  moreover have "global s \<noteq> Some g' \<longrightarrow>
      classes (outcome (toggle_link nv m (s\<lparr>ctrls := (ctrls s)(g' := x)\<rparr>))) =
      classes (outcome (toggle_link nv m s))"
    using toggle_other_ctrl by blast
  moreover have "global (navbar_link sd sc r e ctrl s) \<noteq> Some g' \<longrightarrow>
      ctrls (navbar_link sd sc r e ctrl s) g' = ctrls s g'"
    using navbar_link_other_ctrl by blast
  ultimately show ?thesis
    by (intro conjI)
qed

theorem global_assigned_once_witness:
  "global (run [ToggleLink Top Show, NavbarLink SideTop 1 0 1 10, ToggleLink Both Hide,
                NavbarLink SideBottom 2 0 2 11, ScopeDestroy 2] page_empty) = Some 10 \<and>
   global (outcome (toggle_link Both Hide page_top_only)) = Some 10 \<and>
   global page_both = Some 10 \<and>
   toggle_link Top Hide page_both =
     Inr (page_both\<lparr>classes := invoke Hide top_ctrl (classes page_both)\<rparr>) \<and>
   toggle_link Bottom Show page_both =
     Inr (page_both\<lparr>classes := invoke Show bottom_ctrl (classes page_both)\<rparr>) \<and>
   toggle_link Both Slideout page_both =
     Inr (page_both\<lparr>classes :=
       invoke Slideout top_ctrl (invoke Slideout bottom_ctrl (classes page_both))\<rparr>) \<and>
   toggle_link Both Hide page_top_only = Inl (TypeError, page_top_only) \<and>
   global page_top_only \<noteq> Some 11 \<and>
   classes (outcome (toggle_link Top Hide
      (page_top_only\<lparr>ctrls := (ctrls page_top_only)(11 := [''top'' \<mapsto> bottom_ctrl])\<rparr>))) =
   classes (outcome (toggle_link Top Hide page_top_only)) \<and>
   global_prop ''bottom'' (navbar_link SideBottom 2 0 2 11 page_top_only) = Some bottom_ctrl \<and>
   global (navbar_link SideBottom 2 0 2 11 page_top_only) \<noteq> Some 11 \<and>
   ctrls (navbar_link SideBottom 2 0 2 11 page_top_only) 11 = ctrls page_top_only 11"
proof -
  have e: "global page_empty = None"
    by (simp add: page_empty_def init_def)
  note t = page_top_only_simps
  note b = page_both_simps
  have n: "global (navbar_link SideBottom 2 0 2 11 page_top_only) \<noteq> Some 11"
    by (simp add: global_navbar_link t)
  have "global (run [ToggleLink Top Show, NavbarLink SideTop 1 0 1 10, ToggleLink Both Hide,
                NavbarLink SideBottom 2 0 2 11, ScopeDestroy 2] page_empty) = Some 10"
    using global_assigned_once[where evs = "[ToggleLink Top Show, NavbarLink SideTop 1 0 1 10,
      ToggleLink Both Hide, NavbarLink SideBottom 2 0 2 11, ScopeDestroy 2]" and s = page_empty]
    by (simp add: e)
  moreover
  from global_assigned_once[where s = page_top_only and nv = Both and m = Hide and g = 10]
  have "global (outcome (toggle_link Both Hide page_top_only)) = Some 10"
    "toggle_link Both Hide page_top_only = Inl (TypeError, page_top_only)"
    by (simp_all add: t)
  moreover
  from global_assigned_once[where s = page_both and m = Hide and g = 10]
  have "toggle_link Top Hide page_both =
     Inr (page_both\<lparr>classes := invoke Hide top_ctrl (classes page_both)\<rparr>)"
    by (simp add: b)
  moreover
  from global_assigned_once[where s = page_both and m = Show and g = 10]
  have "toggle_link Bottom Show page_both =
     Inr (page_both\<lparr>classes := invoke Show bottom_ctrl (classes page_both)\<rparr>)"
    by (simp add: b)
  moreover
  from global_assigned_once[where s = page_both and m = Slideout and g = 10]
  have "toggle_link Both Slideout page_both =
     Inr (page_both\<lparr>classes :=
       invoke Slideout top_ctrl (invoke Slideout bottom_ctrl (classes page_both))\<rparr>)"
    by (simp add: b)
  moreover
  from global_assigned_once[where s = page_top_only and nv = Top and m = Hide and g' = 11
      and x = "[''top'' \<mapsto> bottom_ctrl]" and sd = SideBottom and sc = 2 and r = 0 and e = 2
      and ctrl = 11] n
  have "classes (outcome (toggle_link Top Hide
      (page_top_only\<lparr>ctrls := (ctrls page_top_only)(11 := [''top'' \<mapsto> bottom_ctrl])\<rparr>))) =
    classes (outcome (toggle_link Top Hide page_top_only))"
    "global_prop ''bottom'' (navbar_link SideBottom 2 0 2 11 page_top_only) = Some bottom_ctrl"
    "ctrls (navbar_link SideBottom 2 0 2 11 page_top_only) 11 = ctrls page_top_only 11"
    by (simp_all add: t bottom_ctrl_def)
  ultimately show ?thesis
    using n t b by simp
qed

section \<open>The conditions of a navbar\<close>

lemma toggle_step_inv:
  assumes "global s = Some g" "ctrls s g ''top'' = Some t" "ctrls s g ''bottom'' = Some b"
    and d: "env_elem t \<noteq> env_elem b" "env_side t \<noteq> env_side b"
    and i: "nav_inv t (classes s)" "nav_inv b (classes s)"
  shows "\<exists>d'. toggle_link nv m s = Inr (s\<lparr>classes := d'\<rparr>) \<and> nav_inv t d' \<and> nav_inv b d'"
proof -
  note fr = nav_inv_frame[OF d] nav_inv_frame[OF d[symmetric]]
  show ?thesis
  proof (cases nv)
    case Top
    with assms fr show ?thesis
      by (intro exI[of _ "invoke m t (classes s)"])
        (simp add: toggle_link_single nav_inv_invoke)
  next
    case Bottom
    with assms fr show ?thesis
      by (intro exI[of _ "invoke m b (classes s)"])
        (simp add: toggle_link_single nav_inv_invoke)
  next
    case Both
    with assms fr show ?thesis
      by (intro exI[of _ "invoke m t (invoke m b (classes s))"])
        (simp add: toggle_link_registered nav_inv_invoke)
  qed
qed

lemma run_toggles_inv:
  assumes d: "env_elem t \<noteq> env_elem b" "env_side t \<noteq> env_side b"
  shows "global s = Some g \<Longrightarrow> ctrls s g ''top'' = Some t \<Longrightarrow>
    ctrls s g ''bottom'' = Some b \<Longrightarrow> nav_inv t (classes s) \<Longrightarrow> nav_inv b (classes s) \<Longrightarrow>
    (let s' = run (map (\<lambda>(nv, m). ToggleLink nv m) ops) s in
      global s' = Some g \<and> ctrls s' = ctrls s \<and>
      nav_inv t (classes s') \<and> nav_inv b (classes s'))"
proof (induction ops arbitrary: s)
  case Nil
  then show ?case by simp
next
  case (Cons op ops)
  obtain nv m where op: "op = (nv, m)" by (cases op)
  from toggle_step_inv[OF Cons.prems(1-3) d Cons.prems(4,5), of nv m]
  obtain d' where st: "toggle_link nv m s = Inr (s\<lparr>classes := d'\<rparr>)"
    "nav_inv t d'" "nav_inv b d'"
    by blast
  have "let s' = run (map (\<lambda>(nv, m). ToggleLink nv m) ops) (s\<lparr>classes := d'\<rparr>) in
      global s' = Some g \<and> ctrls s' = ctrls (s\<lparr>classes := d'\<rparr>) \<and>
      nav_inv t (classes s') \<and> nav_inv b (classes s')"
    by (rule Cons.IH) (use Cons.prems st in simp_all)
  then show ?case
    by (simp add: op st Let_def)
qed

text \<open>
  C5, as claimed: some state reached by the four methods has a navbar in a third,
  mid-transition condition, neither visible nor hidden. There is none: after one or
  more methods of a navbar's controller, from any classes, the navbar is visible or
  hidden.
\<close>

theorem no_third_condition:
  "\<not> (\<exists>c d ms. ms \<noteq> [] \<and> nav_condition c (fold (\<lambda>m. invoke m c) ms d) = Neither)"
proof
  assume "\<exists>c d ms. ms \<noteq> [] \<and> nav_condition c (fold (\<lambda>m. invoke m c) ms d) = Neither"
  then obtain c d ms where ms: "ms \<noteq> []"
    and n: "nav_condition c (fold (\<lambda>m. invoke m c) ms d) = Neither"
    by blast
  from ms obtain ms' m where "ms = ms' @ [m]"
    by (cases ms rule: rev_cases) auto
  with n have "nav_condition c (invoke m c (fold (\<lambda>m. invoke m c) ms' d)) = Neither"
    by simp
  then show False
    by (simp add: nav_condition_Neither nav_inv_invoke)
qed

text \<open>
  C5, amended: the state distinguishes two conditions per navbar. \<^verbatim>\<open>show\<close> and
  \<^verbatim>\<open>slidein\<close> leave the navbar visible, \<^verbatim>\<open>hide\<close> and \<^verbatim>\<open>slideout\<close> leave it hidden;
  and on a page whose top and bottom navbars are registered, sit on different elements
  and are each visible or hidden, every sequence of toggle directives succeeds and leaves
  each navbar visible or hidden.
\<close>

theorem navbars_visible_or_hidden:
  assumes "global s = Some g" "ctrls s g ''top'' = Some t" "ctrls s g ''bottom'' = Some b"
    and "env_elem t \<noteq> env_elem b" "env_side t \<noteq> env_side b"
    and "nav_condition t (classes s) \<in> {Visible, Hidden}"
    and "nav_condition b (classes s) \<in> {Visible, Hidden}"
  shows "nav_condition t (classes (run (map (\<lambda>(nv, m). ToggleLink nv m) ops) s))
           \<in> {Visible, Hidden} \<and>
         nav_condition b (classes (run (map (\<lambda>(nv, m). ToggleLink nv m) ops) s))
           \<in> {Visible, Hidden} \<and>
         nav_condition c (invoke Show c d) = Visible \<and>
         nav_condition c (invoke Slidein c d) = Visible \<and>
         nav_condition c (invoke Hide c d) = Hidden \<and>
         nav_condition c (invoke Slideout c d) = Hidden"
proof -
  from assms(6,7) have "nav_inv t (classes s)" "nav_inv b (classes s)"
    by (simp_all only: nav_condition_cases)
  from run_toggles_inv[OF assms(4,5) assms(1-3) this, of ops]
  have "nav_inv t (classes (run (map (\<lambda>(nv, m). ToggleLink nv m) ops) s))"
    "nav_inv b (classes (run (map (\<lambda>(nv, m). ToggleLink nv m) ops) s))"
    by (simp_all add: Let_def)
  then show ?thesis
    by (simp only: nav_condition_cases nav_condition_invoke simp_thms)
qed

theorem navbars_visible_or_hidden_witness:
  "global page_both = Some 10 \<and> ctrls page_both 10 ''top'' = Some top_ctrl \<and>
   ctrls page_both 10 ''bottom'' = Some bottom_ctrl \<and>
   env_elem top_ctrl \<noteq> env_elem bottom_ctrl \<and> env_side top_ctrl \<noteq> env_side bottom_ctrl \<and>
   nav_condition top_ctrl (classes page_both) = Visible \<and>
   nav_condition bottom_ctrl (classes page_both) = Visible \<and>
   nav_condition top_ctrl
     (classes (run [ToggleLink Both Slideout, ToggleLink Top Slidein] page_both))
       \<in> {Visible, Hidden} \<and>
   nav_condition bottom_ctrl
     (classes (run [ToggleLink Both Slideout, ToggleLink Top Slidein] page_both))
       \<in> {Visible, Hidden}"
proof -
  have e: "env_elem top_ctrl \<noteq> env_elem bottom_ctrl" "env_side top_ctrl \<noteq> env_side bottom_ctrl"
    by (simp_all add: top_ctrl_def bottom_ctrl_def)
  have v: "nav_condition top_ctrl (classes page_both) = Visible"
    "nav_condition bottom_ctrl (classes page_both) = Visible"
    by (simp_all add: nav_condition_def classes_page_both top_ctrl_def bottom_ctrl_def)
  have v': "nav_condition top_ctrl (classes page_both) \<in> {Visible, Hidden}"
    "nav_condition bottom_ctrl (classes page_both) \<in> {Visible, Hidden}"
    by (simp_all add: v)
  from navbars_visible_or_hidden[OF page_both_simps e v',
      of "[(Both, Slideout), (Top, Slidein)]"]
  have "nav_condition top_ctrl
     (classes (run [ToggleLink Both Slideout, ToggleLink Top Slidein] page_both))
       \<in> {Visible, Hidden}"
    "nav_condition bottom_ctrl
     (classes (run [ToggleLink Both Slideout, ToggleLink Top Slidein] page_both))
       \<in> {Visible, Hidden}"
    by simp_all
  then show ?thesis
    using page_both_simps e v by simp
qed

end
